theory Spec2Isabelle
  imports Main "HOL-Library.Word"
begin

section \<open>The Droplet external client of provider-digitalocean\<close>

text \<open>
  A shallow embedding of \<^verbatim>\<open>pkg/controller/compute/droplet.go\<close>: the four operations
  \<^verbatim>\<open>Observe\<close>, \<^verbatim>\<open>Create\<close>, \<^verbatim>\<open>Update\<close> and \<^verbatim>\<open>Delete\<close> of \<^verbatim>\<open>dropletExternal\<close>.
  The managed resource is passed in and returned (the Go code mutates it through a
  pointer), every call that leaves the process is appended to a log, and the answers of the
  DigitalOcean API and of the Kubernetes API server are functions held by the client.
\<close>

subsection \<open>Go values: int, error, strconv\<close>

text \<open>Go's \<^verbatim>\<open>int\<close> on a 64-bit platform, read as two's complement with \<^const>\<open>sint\<close>.\<close>

type_synonym go_int = "64 word"

text \<open>
  A Go \<^verbatim>\<open>error\<close> is \<open>error option\<close>, \<open>None\<close> being \<^verbatim>\<open>nil\<close>. \<^verbatim>\<open>errors.New\<close> and
  \<^verbatim>\<open>errors.Wrap\<close> are those of \<^verbatim>\<open>github.com/pkg/errors\<close>; \<open>api_error\<close> stands for
  an error made by the DigitalOcean client or by the Kubernetes client.
\<close>

datatype error =
    errors_New string
  | Wrapped error string
  | api_error string

text \<open>\<^verbatim>\<open>errors.Wrap\<close> returns \<^verbatim>\<open>nil\<close> when the error it is given is \<^verbatim>\<open>nil\<close>.\<close>

definition errors_Wrap :: "error option \<Rightarrow> string \<Rightarrow> error option" where
  "errors_Wrap err message =
     (case err of None \<Rightarrow> None | Some e \<Rightarrow> Some (Wrapped e message))"

definition errNotDroplet :: string where
  "errNotDroplet = ''managed resource is not a Droplet resource''"

definition errGetDroplet :: string where
  "errGetDroplet = ''cannot get droplet''"

definition errDropletCreateFailed :: string where
  "errDropletCreateFailed = ''creation of Droplet resource has failed''"

definition errDropletDeleteFailed :: string where
  "errDropletDeleteFailed = ''deletion of Droplet resource has failed''"

definition errDropletUpdate :: string where
  "errDropletUpdate = ''cannot update managed Droplet resource''"

text \<open>
  \<^verbatim>\<open>strconv.Atoi\<close>: an optional sign, then one or more decimal digits, and a value that
  fits a Go \<^verbatim>\<open>int\<close>; anything else is an error (\<open>None\<close>). The digits are accumulated
  in \<open>int\<close>, so the range check is the comparison with \<open>2 ^ 63\<close>.
\<close>

definition is_digit :: "char \<Rightarrow> bool" where
  "is_digit ch = (48 \<le> (of_char ch :: int) \<and> (of_char ch :: int) \<le> 57)"

definition digit_val :: "char \<Rightarrow> int" where
  "digit_val ch = of_char ch - 48"

fun parse_digits :: "int \<Rightarrow> string \<Rightarrow> int option" where
  "parse_digits n [] = Some n"
| "parse_digits n (ch # s) =
     (if is_digit ch then parse_digits (n * 10 + digit_val ch) s else None)"

definition Atoi :: "string \<Rightarrow> go_int option" where
  "Atoi s0 =
     (case s0 of
        [] \<Rightarrow> None
      | c # cs \<Rightarrow>
          (let s = (if c = CHR ''-'' \<or> c = CHR ''+'' then cs else s0) in
           if s = [] then None
           else (case parse_digits 0 s of
                   None \<Rightarrow> None
                 | Some n \<Rightarrow>
                     if c = CHR ''-''
                     then (if n \<le> 2 ^ 63 then Some (word_of_int (- n)) else None)
                     else (if n < 2 ^ 63 then Some (word_of_int n) else None))))"

text \<open>\<^verbatim>\<open>strconv.Itoa\<close>: the decimal digits of the value, after a minus sign when it is negative.\<close>

definition digit_char :: "int \<Rightarrow> char" where
  "digit_char d = char_of (48 + d)"

function format_digits :: "int \<Rightarrow> string" where
  "format_digits n =
     (if n < 10 then [digit_char n]
      else format_digits (n div 10) @ [digit_char (n mod 10)])"
  by pat_completeness auto
termination
  by (relation "measure nat") auto

definition Itoa :: "go_int \<Rightarrow> string" where
  "Itoa i =
     (if sint i < 0 then CHR ''-'' # format_digits (- sint i) else format_digits (sint i))"

subsection \<open>Conditions (crossplane-runtime, \<^verbatim>\<open>apis/common/v1\<close>)\<close>

record Condition =
  cond_Type :: string
  cond_Status :: string
  cond_LastTransitionTime :: nat
  cond_Reason :: string
  cond_Message :: string

definition TypeReady :: string where
  "TypeReady = ''Ready''"

definition TypeSynced :: string where
  "TypeSynced = ''Synced''"

text \<open>The constructors read the clock (\<^verbatim>\<open>metav1.Now()\<close>); the model takes the time as argument.\<close>

definition Creating :: "nat \<Rightarrow> Condition" where
  "Creating now =
     \<lparr>cond_Type = TypeReady, cond_Status = ''False'', cond_LastTransitionTime = now,
      cond_Reason = ''Creating'', cond_Message = ''''\<rparr>"

definition Available :: "nat \<Rightarrow> Condition" where
  "Available now =
     \<lparr>cond_Type = TypeReady, cond_Status = ''True'', cond_LastTransitionTime = now,
      cond_Reason = ''Available'', cond_Message = ''''\<rparr>"

definition Deleting :: "nat \<Rightarrow> Condition" where
  "Deleting now =
     \<lparr>cond_Type = TypeReady, cond_Status = ''False'', cond_LastTransitionTime = now,
      cond_Reason = ''Deleting'', cond_Message = ''''\<rparr>"

text \<open>\<^verbatim>\<open>Condition.Equal\<close> ignores the transition time.\<close>

definition Condition_Equal :: "Condition \<Rightarrow> Condition \<Rightarrow> bool" where
  "Condition_Equal c other =
     (cond_Type c = cond_Type other \<and> cond_Status c = cond_Status other \<and>
      cond_Reason c = cond_Reason other \<and> cond_Message c = cond_Message other)"

text \<open>
  The inner loop of \<^verbatim>\<open>ConditionedStatus.SetConditions\<close> for one new condition: every
  existing condition of the same type that is not \<^verbatim>\<open>Equal\<close> to it is overwritten in place;
  the flag is \<^verbatim>\<open>exists\<close>.
\<close>

fun set_existing :: "Condition \<Rightarrow> Condition list \<Rightarrow> Condition list \<times> bool" where
  "set_existing new [] = ([], False)"
| "set_existing new (existing # rest) =
     (case set_existing new rest of
        (rest', found) \<Rightarrow>
          if cond_Type existing \<noteq> cond_Type new then (existing # rest', found)
          else if Condition_Equal existing new then (existing # rest', True)
          else (new # rest', True))"

definition SetConditions :: "Condition list \<Rightarrow> Condition list \<Rightarrow> Condition list" where
  "SetConditions conds c =
     fold (\<lambda>new s.
             case set_existing new s of
               (s', found) \<Rightarrow> if found then s' else s' @ [new]) c conds"

text \<open>\<^verbatim>\<open>ConditionedStatus.GetCondition\<close>: the first condition of the type, or an unknown one.\<close>

fun GetCondition :: "Condition list \<Rightarrow> string \<Rightarrow> Condition" where
  "GetCondition [] ct =
     \<lparr>cond_Type = ct, cond_Status = ''Unknown'', cond_LastTransitionTime = 0,
      cond_Reason = '''', cond_Message = ''''\<rparr>"
| "GetCondition (c # cs) ct = (if cond_Type c = ct then c else GetCondition cs ct)"

subsection \<open>The Droplet managed resource (\<^verbatim>\<open>apis/compute/v1alpha1\<close>)\<close>

text \<open>
  The fields are those of the resource's schema (\<^verbatim>\<open>droplets.compute.do.crossplane.io\<close>):
  \<^verbatim>\<open>image\<close>, \<^verbatim>\<open>region\<close> and \<^verbatim>\<open>size\<close> are required; an optional field or array is
  \<open>None\<close> when it is unset, so that equality of two parameter records is the deep
  structural equality of \<^verbatim>\<open>cmp.Equal\<close>, and a copy of the record is \<^verbatim>\<open>DeepCopy\<close>.
\<close>

record DropletParameters =
  Region :: string
  Size :: string
  Image :: string
  SSHKeys :: "string list option"
  Backups :: "bool option"
  IPv6 :: "bool option"
  PrivateNetworking :: "bool option"
  Monitoring :: "bool option"
  Volumes :: "string list option"
  Tags :: "string list option"
  VPCUUID :: "string option"
  WithDropletAgent :: "bool option"

record DropletSpec =
  DeletionPolicy :: string
  ProviderConfigReference :: "string option"
  ProviderReference :: "string option"
  WriteConnectionSecretToReference :: "(string \<times> string) option"
  ForProvider :: DropletParameters

record DropletObservation =
  CreationTimestamp :: string
  ID :: go_int
  AtProvider_Status :: string

record DropletStatus =
  Conditions :: "Condition list"
  AtProvider :: DropletObservation

record ObjectMeta =
  Name :: string
  Annotations :: "string \<rightharpoonup> string"

record Droplet =
  Metadata :: ObjectMeta
  Spec :: DropletSpec
  Status :: DropletStatus

text \<open>
  \<^verbatim>\<open>resource.Managed\<close> is an interface; the operations assert that the value behind it is
  a \<^verbatim>\<open>*v1alpha1.Droplet\<close>. A managed resource of another kind is kept by the name of its kind.
\<close>

datatype Managed =
    Droplet_mg Droplet
  | Other_mg string

text \<open>
  Modelled from the spec: the constants \<^verbatim>\<open>v1alpha1.StatusNew\<close> and
  \<^verbatim>\<open>v1alpha1.StatusActive\<close> are declared in a package whose source is not available; the lifecycle
  statuses are named \<^verbatim>\<open>new\<close> and \<^verbatim>\<open>active\<close>.
\<close>

definition StatusNew :: string where
  "StatusNew = ''new''"

definition StatusActive :: string where
  "StatusActive = ''active''"

text \<open>\<^verbatim>\<open>meta.GetExternalName\<close> and \<^verbatim>\<open>meta.SetExternalName\<close> of crossplane-runtime.\<close>

definition AnnotationKeyExternalName :: string where
  "AnnotationKeyExternalName = ''crossplane.io/external-name''"

definition GetExternalName :: "Droplet \<Rightarrow> string" where
  "GetExternalName cr =
     (case Annotations (Metadata cr) AnnotationKeyExternalName of
        None \<Rightarrow> ''''
      | Some v \<Rightarrow> v)"

definition SetExternalName :: "Droplet \<Rightarrow> string \<Rightarrow> Droplet" where
  "SetExternalName cr name =
     cr\<lparr>Metadata := (Metadata cr)
          \<lparr>Annotations := (Annotations (Metadata cr))(AnnotationKeyExternalName \<mapsto> name)\<rparr>\<rparr>"

definition GetName :: "Droplet \<Rightarrow> string" where
  "GetName cr = Name (Metadata cr)"

text \<open>\<^verbatim>\<open>cr.SetConditions\<close>, which is \<^verbatim>\<open>cr.Status.SetConditions\<close>.\<close>

definition Droplet_SetConditions :: "Droplet \<Rightarrow> Condition list \<Rightarrow> Droplet" where
  "Droplet_SetConditions cr c =
     cr\<lparr>Status := (Status cr)\<lparr>Conditions := SetConditions (Conditions (Status cr)) c\<rparr>\<rparr>"

subsection \<open>The DigitalOcean client (\<^verbatim>\<open>godo\<close>) and the collaborators\<close>

text \<open>
  Of \<^verbatim>\<open>godo.Droplet\<close> the controller reads the ID, the status and the creation time; what
  else the API returns is the extension of the record, which late initialization may read.
\<close>

record godo_Droplet =
  godo_ID :: go_int
  godo_Status :: string
  godo_Created :: string

record DropletCreateRequest =
  req_Name :: string
  req_Region :: string
  req_Size :: string
  req_Image :: string
  req_SSHKeys :: "string list"
  req_Backups :: bool
  req_IPv6 :: bool
  req_PrivateNetworking :: bool
  req_Monitoring :: bool
  req_Volumes :: "string list"
  req_Tags :: "string list"
  req_VPCUUID :: string
  req_WithDropletAgent :: "bool option"

text \<open>
  Modelled from the spec: \<^verbatim>\<open>do.IgnoreNotFound\<close> (\<^verbatim>\<open>pkg/clients\<close>) is not among
  the available sources, and neither is what it reads in the \<^verbatim>\<open>*godo.Response\<close>. The spec gives
  the provider boundary as \<^verbatim>\<open>getInstance(id) -> (instance, notFound, error)\<close> and
  \<^verbatim>\<open>deleteInstance(id) -> (notFound, error)\<close>, and makes not-found a distinguished outcome
  that is not an error for Observe and Delete: the response carries the flag, and a
  not-found response turns the error into \<^verbatim>\<open>nil\<close>; any other error is passed on.
\<close>

record Response =
  NotFound :: bool

definition is_not_found :: "Response option \<Rightarrow> bool" where
  "is_not_found response = (case response of None \<Rightarrow> False | Some r \<Rightarrow> NotFound r)"

definition IgnoreNotFound :: "error option \<Rightarrow> Response option \<Rightarrow> error option" where
  "IgnoreNotFound err response = (if is_not_found response then None else err)"

text \<open>
  \<^verbatim>\<open>dropletExternal\<close>: the Kubernetes client and the \<^verbatim>\<open>Droplets\<close> service of the
  embedded \<^verbatim>\<open>*godo.Client\<close>. Each field answers one call; \<^verbatim>\<open>kube.Update\<close> is given the
  record as it is at the call and answers with an error or \<^verbatim>\<open>nil\<close>.
\<close>

record 'z dropletExternal =
  kube_Update :: "Droplet \<Rightarrow> error option"
  Droplets_Get :: "go_int \<Rightarrow> 'z godo_Droplet_scheme option \<times> Response option \<times> error option"
  Droplets_Create ::
    "DropletCreateRequest \<Rightarrow> 'z godo_Droplet_scheme option \<times> Response option \<times> error option"
  Droplets_Delete :: "go_int \<Rightarrow> Response option \<times> error option"



text \<open>
  What the operations use of the repository's package \<^verbatim>\<open>pkg/clients/compute\<close>, which is
  not among the available sources, and the clock: parameters of the model.
\<close>

record 'z collaborators =
  LateInitializeSpec :: "DropletParameters \<Rightarrow> 'z godo_Droplet_scheme \<Rightarrow> DropletParameters"
  GenerateDroplet :: "string \<Rightarrow> DropletParameters \<Rightarrow> DropletCreateRequest"
  metav1_Now :: nat

subsection \<open>Results of the operations\<close>

record ExternalObservation =
  ResourceExists :: bool
  ResourceUpToDate :: bool
  ResourceLateInitialized :: bool
  observation_ConnectionDetails :: "string \<rightharpoonup> string"

record ExternalCreation =
  ExternalNameAssigned :: bool
  creation_ConnectionDetails :: "string \<rightharpoonup> string"

record ExternalUpdate =
  update_ConnectionDetails :: "string \<rightharpoonup> string"

definition ExternalObservation_zero :: ExternalObservation where
  "ExternalObservation_zero =
     \<lparr>ResourceExists = False, ResourceUpToDate = False, ResourceLateInitialized = False,
      observation_ConnectionDetails = Map.empty\<rparr>"

definition ExternalCreation_zero :: ExternalCreation where
  "ExternalCreation_zero =
     \<lparr>ExternalNameAssigned = False, creation_ConnectionDetails = Map.empty\<rparr>"

definition ExternalUpdate_zero :: ExternalUpdate where
  "ExternalUpdate_zero = \<lparr>update_ConnectionDetails = Map.empty\<rparr>"

text \<open>The calls that leave the process, in the order they are made.\<close>

datatype Call =
    Call_Droplets_Get go_int
  | Call_Droplets_Create DropletCreateRequest
  | Call_Droplets_Delete go_int
  | Call_kube_Update Droplet

text \<open>
  What an operation returns: its result, its error, the managed resource as the operation
  leaves it, and the calls it made. An operation that dereferences a \<^verbatim>\<open>nil\<close> pointer panics.
\<close>

record 'r ret =
  result :: 'r
  err :: "error option"
  managed :: Managed
  calls :: "Call list"

datatype 'a outcome =
    Returned 'a
  | Panicked

subsection \<open>Observe\<close>

text \<open>
  Lines 99 to 105: the external name parsed as an ID, and 0 when it does not parse.
\<close>

definition externalID_of :: "Droplet \<Rightarrow> go_int" where
  "externalID_of cr = (case Atoi (GetExternalName cr) of Some n \<Rightarrow> n | None \<Rightarrow> 0)"

text \<open>Lines 112 and 113: the record after \<^verbatim>\<open>LateInitializeSpec\<close>.\<close>

definition late_initialized ::
  "'z collaborators \<Rightarrow> Droplet \<Rightarrow> 'z godo_Droplet_scheme \<Rightarrow> Droplet" where
  "late_initialized p cr observed =
     cr\<lparr>Spec := (Spec cr)\<lparr>ForProvider := LateInitializeSpec p (ForProvider (Spec cr)) observed\<rparr>\<rparr>"

text \<open>Lines 120 to 131: the observation is stored, and the status decides the condition.\<close>

definition record_observation ::
  "'z collaborators \<Rightarrow> Droplet \<Rightarrow> 'z godo_Droplet_scheme \<Rightarrow> Droplet" where
  "record_observation p cr observed =
     (let cr' = cr\<lparr>Status := (Status cr)
                  \<lparr>AtProvider :=
                     \<lparr>CreationTimestamp = godo_Created observed,
                      ID = godo_ID observed,
                      AtProvider_Status = godo_Status observed\<rparr>\<rparr>\<rparr>
      in if AtProvider_Status (AtProvider (Status cr')) = StatusNew
         then Droplet_SetConditions cr' [Creating (metav1_Now p)]
         else if AtProvider_Status (AtProvider (Status cr')) = StatusActive
         then Droplet_SetConditions cr' [Available (metav1_Now p)]
         else cr')"

definition Observe ::
  "'z dropletExternal \<Rightarrow> 'z collaborators \<Rightarrow> Managed \<Rightarrow> ExternalObservation ret outcome" where
  "Observe c p mg =
     (case mg of
        Other_mg k \<Rightarrow>
          Returned \<lparr>result = ExternalObservation_zero, err = Some (errors_New errNotDroplet),
                    managed = mg, calls = []\<rparr>
      | Droplet_mg cr \<Rightarrow>
          if GetExternalName cr = ''''
          then Returned \<lparr>result = ExternalObservation_zero\<lparr>ResourceExists := False\<rparr>,
                         err = None, managed = mg, calls = []\<rparr>
          else
            (let externalID = externalID_of cr in
             case Droplets_Get c externalID of
               (observed, response, e) \<Rightarrow>
                 if e \<noteq> None
                 then Returned \<lparr>result = ExternalObservation_zero,
                                err = errors_Wrap (IgnoreNotFound e response) errGetDroplet,
                                managed = mg, calls = [Call_Droplets_Get externalID]\<rparr>
                 else
                   (case observed of
                      None \<Rightarrow> Panicked
                    | Some obs \<Rightarrow>
                        (let currentSpec = ForProvider (Spec cr);
                             cr1 = late_initialized p cr obs;
                             changed = (currentSpec \<noteq> ForProvider (Spec cr1));
                             log = Call_Droplets_Get externalID #
                                   (if changed then [Call_kube_Update cr1] else [])
                         in if changed \<and> kube_Update c cr1 \<noteq> None
                            then Returned \<lparr>result = ExternalObservation_zero,
                                           err = errors_Wrap (kube_Update c cr1) errDropletUpdate,
                                           managed = Droplet_mg cr1, calls = log\<rparr>
                            else Returned \<lparr>result = ExternalObservation_zero
                                             \<lparr>ResourceExists := True, ResourceUpToDate := True\<rparr>,
                                           err = None,
                                           managed = Droplet_mg (record_observation p cr1 obs),
                                           calls = log\<rparr>))))"

subsection \<open>Create\<close>

text \<open>Lines 148 to 151: the name sent to the provider.\<close>

definition create_name :: "Droplet \<Rightarrow> string" where
  "create_name cr = (if GetExternalName cr = '''' then GetName cr else GetExternalName cr)"

definition Create ::
  "'z dropletExternal \<Rightarrow> 'z collaborators \<Rightarrow> Managed \<Rightarrow> ExternalCreation ret outcome" where
  "Create c p mg =
     (case mg of
        Other_mg k \<Rightarrow>
          Returned \<lparr>result = ExternalCreation_zero, err = Some (errors_New errNotDroplet),
                    managed = mg, calls = []\<rparr>
      | Droplet_mg cr0 \<Rightarrow>
          (let cr = Droplet_SetConditions cr0 [Creating (metav1_Now p)];
               create = GenerateDroplet p (create_name cr) (ForProvider (Spec cr))
           in case Droplets_Create c create of
                (Some droplet, response, None) \<Rightarrow>
                  Returned \<lparr>result = ExternalCreation_zero\<lparr>ExternalNameAssigned := True\<rparr>,
                            err = None,
                            managed = Droplet_mg
                              (if GetExternalName cr = ''''
                               then SetExternalName cr (Itoa (godo_ID droplet)) else cr),
                            calls = [Call_Droplets_Create create]\<rparr>
              | (droplet, response, e) \<Rightarrow>
                  Returned \<lparr>result = ExternalCreation_zero,
                            err = errors_Wrap e errDropletCreateFailed,
                            managed = Droplet_mg cr,
                            calls = [Call_Droplets_Create create]\<rparr>))"

subsection \<open>Update\<close>

definition Update ::
  "'z dropletExternal \<Rightarrow> 'z collaborators \<Rightarrow> Managed \<Rightarrow> ExternalUpdate ret outcome" where
  "Update c p mg =
     Returned \<lparr>result = ExternalUpdate_zero, err = None, managed = mg, calls = []\<rparr>"

subsection \<open>Delete\<close>

definition Delete ::
  "'z dropletExternal \<Rightarrow> 'z collaborators \<Rightarrow> Managed \<Rightarrow> unit ret outcome" where
  "Delete c p mg =
     (case mg of
        Other_mg k \<Rightarrow>
          Returned \<lparr>result = (), err = Some (errors_New errNotDroplet),
                    managed = mg, calls = []\<rparr>
      | Droplet_mg cr0 \<Rightarrow>
          (let cr = Droplet_SetConditions cr0 [Deleting (metav1_Now p)];
               droplet_id = ID (AtProvider (Status cr))
           in case Droplets_Delete c droplet_id of
                (response, e) \<Rightarrow>
                  Returned \<lparr>result = (),
                            err = errors_Wrap (IgnoreNotFound e response) errDropletDeleteFailed,
                            managed = Droplet_mg cr,
                            calls = [Call_Droplets_Delete droplet_id]\<rparr>))"

subsection \<open>Concrete inputs\<close>

text \<open>
  A record as a user writes it, the same record with a name chosen by the user as its
  external name, the record as Create leaves it for the instance 123456, and the record
  once that instance is active and the \<^verbatim>\<open>backups\<close> flag is set.
\<close>

definition example_parameters :: DropletParameters where
  "example_parameters =
     \<lparr>Region = ''nyc1'', Size = ''s-1vcpu-1gb'', Image = ''ubuntu-20-04'',
      SSHKeys = None, Backups = None, IPv6 = None, PrivateNetworking = None,
      Monitoring = None, Volumes = None, Tags = None, VPCUUID = None,
      WithDropletAgent = None\<rparr>"

definition example_droplet :: Droplet where
  "example_droplet =
     \<lparr>Metadata = \<lparr>Name = ''web'', Annotations = Map.empty\<rparr>,
      Spec = \<lparr>DeletionPolicy = ''Delete'', ProviderConfigReference = Some ''default'',
              ProviderReference = None, WriteConnectionSecretToReference = None,
              ForProvider = example_parameters\<rparr>,
      Status = \<lparr>Conditions = [],
                AtProvider = \<lparr>CreationTimestamp = '''', ID = 0, AtProvider_Status = ''''\<rparr>\<rparr>\<rparr>"

definition example_named :: Droplet where
  "example_named = SetExternalName example_droplet ''web-1''"

definition example_handed_off :: Droplet where
  "example_handed_off = SetExternalName example_droplet ''123456''"

definition example_created :: Droplet where
  "example_created =
     (SetExternalName example_droplet ''123456'')
       \<lparr>Spec := (Spec example_droplet)
                  \<lparr>ForProvider := example_parameters\<lparr>Backups := Some True\<rparr>\<rparr>,
        Status := \<lparr>Conditions = [Available 5],
                   AtProvider = \<lparr>CreationTimestamp = ''2021-03-01T10:00:00Z'', ID = 123456,
                                 AtProvider_Status = ''active''\<rparr>\<rparr>\<rparr>"

definition example_instance :: "string \<Rightarrow> godo_Droplet" where
  "example_instance st =
     \<lparr>godo_ID = 123456, godo_Status = st, godo_Created = ''2021-03-01T10:00:00Z''\<rparr>"

definition ok_response :: "Response option" where
  "ok_response = Some \<lparr>NotFound = False\<rparr>"

definition not_found_response :: "Response option" where
  "not_found_response = Some \<lparr>NotFound = True\<rparr>"

text \<open>
  Collaborators: late initialization that fills the unset \<^verbatim>\<open>backups\<close> flag, a request
  that copies the required fields, and the clock at 7.
\<close>

definition example_collaborators :: "unit collaborators" where
  "example_collaborators =
     \<lparr>LateInitializeSpec =
        (\<lambda>params observed.
           params\<lparr>Backups := (case Backups params of None \<Rightarrow> Some False | Some b \<Rightarrow> Some b)\<rparr>),
      GenerateDroplet =
        (\<lambda>name params.
           \<lparr>req_Name = name, req_Region = Region params, req_Size = Size params,
            req_Image = Image params, req_SSHKeys = [], req_Backups = False, req_IPv6 = False,
            req_PrivateNetworking = False, req_Monitoring = False, req_Volumes = [],
            req_Tags = [], req_VPCUUID = '''', req_WithDropletAgent = None\<rparr>),
      metav1_Now = 7\<rparr>"

text \<open>
  A provider that holds the instance 123456 in the given lifecycle status, answers not
  found for every other ID, and creates that instance; the API server accepts updates.
\<close>

definition example_client :: "string \<Rightarrow> unit dropletExternal" where
  "example_client st =
     \<lparr>kube_Update = (\<lambda>cr. None),
      Droplets_Get =
        (\<lambda>i. if i = 123456 then (Some (example_instance st), ok_response, None)
             else (None, not_found_response, Some (api_error ''The resource you requested could not be found.''))),
      Droplets_Create = (\<lambda>req. (Some (example_instance st), ok_response, None)),
      Droplets_Delete =
        (\<lambda>i. if i = 123456 then (ok_response, None)
             else (not_found_response, Some (api_error ''The resource you requested could not be found.'')))\<rparr>"

text \<open>A provider whose create call returns neither an instance nor an error.\<close>

definition client_create_nil :: "unit dropletExternal" where
  "client_create_nil = (example_client ''new'')\<lparr>Droplets_Create := (\<lambda>req. (None, ok_response, None))\<rparr>"

text \<open>A provider that answers every get with an instance, and an API server that refuses updates.\<close>

definition client_update_refused :: "unit dropletExternal" where
  "client_update_refused =
     (example_client ''active'')
       \<lparr>kube_Update := (\<lambda>cr. Some (api_error ''the object has been modified'')),
        Droplets_Get := (\<lambda>i. (Some (example_instance ''active''), ok_response, None))\<rparr>"

section \<open>Properties\<close>

declare format_digits.simps [simp del]

subsection \<open>strconv: Atoi reads back what Itoa writes\<close>

lemma is_digit_digit_char: "0 \<le> d \<Longrightarrow> d < 10 \<Longrightarrow> is_digit (digit_char d)"
  by (simp add: is_digit_def digit_char_def)

lemma digit_val_digit_char: "0 \<le> d \<Longrightarrow> d < 10 \<Longrightarrow> digit_val (digit_char d) = d"
  by (simp add: digit_val_def digit_char_def)

lemma parse_digits_append:
  "parse_digits a (xs @ ys) =
     (case parse_digits a xs of None \<Rightarrow> None | Some m \<Rightarrow> parse_digits m ys)"
  by (induction xs arbitrary: a) auto

lemma parse_digits_format_digits:
  "0 \<le> n \<Longrightarrow> parse_digits 0 (format_digits n) = Some n"
proof (induction n rule: format_digits.induct)
  case (1 n)
  show ?case
  proof (cases "n < 10")
    case True
    with 1(2) show ?thesis
      by (simp add: format_digits.simps [of n] is_digit_digit_char digit_val_digit_char)
  next
    case False
    with 1 have ih: "parse_digits 0 (format_digits (n div 10)) = Some (n div 10)" by simp
    have d: "0 \<le> n mod 10" "n mod 10 < 10" by simp_all
    from False show ?thesis
      by (simp add: format_digits.simps [of n] parse_digits_append ih
          is_digit_digit_char [OF d] digit_val_digit_char [OF d])
  qed
qed

lemma format_digits_nonempty: "format_digits n \<noteq> []"
  by (simp add: format_digits.simps [of n])

lemma hd_format_digits: "0 \<le> n \<Longrightarrow> is_digit (hd (format_digits n))"
proof (induction n rule: format_digits.induct)
  case (1 n)
  show ?case
  proof (cases "n < 10")
    case True
    with 1(2) show ?thesis
      by (simp add: format_digits.simps [of n] is_digit_digit_char)
  next
    case False
    with 1 have "is_digit (hd (format_digits (n div 10)))" by simp
    with False show ?thesis
      by (simp add: format_digits.simps [of n] format_digits_nonempty)
  qed
qed

lemma not_digit_minus: "\<not> is_digit CHR ''-''"
  by (simp add: is_digit_def)

lemma not_digit_plus: "\<not> is_digit CHR ''+''"
  by (simp add: is_digit_def)

lemma Atoi_Itoa: "Atoi (Itoa i) = Some i"
proof (cases "sint i < 0")
  case True
  have lo: "- (2 ^ 63) \<le> sint i" using sint_ge [of i] by simp
  then have le: "- sint i \<le> 2 ^ 63" by simp
  from True have p: "parse_digits 0 (format_digits (- sint i)) = Some (- sint i)"
    by (simp add: parse_digits_format_digits)
  show ?thesis
    using True le p
    by (simp add: Atoi_def Itoa_def format_digits_nonempty)
next
  case False
  obtain c cs where f: "format_digits (sint i) = c # cs"
    using format_digits_nonempty [of "sint i"] by (cases "format_digits (sint i)") auto
  have dc: "is_digit c" using hd_format_digits [of "sint i"] f False by simp
  have c: "c \<noteq> CHR ''-''" "c \<noteq> CHR ''+''" using dc not_digit_minus not_digit_plus by auto
  have lt: "sint i < 2 ^ 63" using sint_lt [of i] by simp
  have p: "parse_digits 0 (c # cs) = Some (sint i)"
    using parse_digits_format_digits [of "sint i"] f False by simp
  show ?thesis
    using False c lt p f
    by (simp add: Atoi_def Itoa_def del: parse_digits.simps)
qed

lemma Atoi_empty: "Atoi '''' = None"
  by (simp add: Atoi_def)

subsection \<open>The external name and the conditions\<close>

lemma GetExternalName_SetExternalName: "GetExternalName (SetExternalName cr name) = name"
  by (simp add: GetExternalName_def SetExternalName_def)

lemma Metadata_SetConditions: "Metadata (Droplet_SetConditions cr c) = Metadata cr"
  by (simp add: Droplet_SetConditions_def)

lemma Spec_SetConditions: "Spec (Droplet_SetConditions cr c) = Spec cr"
  by (simp add: Droplet_SetConditions_def)

lemma GetExternalName_SetConditions:
  "GetExternalName (Droplet_SetConditions cr c) = GetExternalName cr"
  by (simp add: GetExternalName_def Metadata_SetConditions)

lemma create_name_SetConditions: "create_name (Droplet_SetConditions cr c) = create_name cr"
  by (simp add: create_name_def GetName_def GetExternalName_SetConditions Metadata_SetConditions)

lemma Metadata_late_initialized: "Metadata (late_initialized p cr observed) = Metadata cr"
  by (simp add: late_initialized_def)

lemma Status_late_initialized: "Status (late_initialized p cr observed) = Status cr"
  by (simp add: late_initialized_def)

lemma Metadata_record_observation: "Metadata (record_observation p cr observed) = Metadata cr"
  by (simp add: record_observation_def Let_def Metadata_SetConditions)

lemma set_existing_found:
  "snd (set_existing new cs) \<Longrightarrow>
     Condition_Equal (GetCondition (fst (set_existing new cs)) (cond_Type new)) new"
  by (induction cs) (auto simp: Condition_Equal_def split: prod.splits)

lemma set_existing_not_found:
  "\<not> snd (set_existing new cs) \<Longrightarrow>
     fst (set_existing new cs) = cs \<and> (\<forall>c \<in> set cs. cond_Type c \<noteq> cond_Type new)"
  by (induction cs) (auto split: prod.splits if_splits)

lemma GetCondition_append_new:
  "\<forall>c \<in> set cs. cond_Type c \<noteq> cond_Type new \<Longrightarrow>
     GetCondition (cs @ [new]) (cond_Type new) = new"
  by (induction cs) auto

lemma GetCondition_SetConditions:
  "Condition_Equal (GetCondition (SetConditions cs [new]) (cond_Type new)) new"
proof -
  obtain s' hit where se: "set_existing new cs = (s', hit)"
    by (cases "set_existing new cs")
  show ?thesis
  proof (cases hit)
    case True
    with se set_existing_found [of new cs] show ?thesis
      by (simp add: SetConditions_def)
  next
    case False
    with se set_existing_not_found [of new cs]
    have "s' = cs" and "\<forall>c \<in> set cs. cond_Type c \<noteq> cond_Type new"
      by simp_all
    with se False GetCondition_append_new [of cs new] show ?thesis
      by (simp add: SetConditions_def Condition_Equal_def)
  qed
qed

subsection \<open>Create\<close>

lemma Create_succeeds:
  assumes "Droplets_Create c (GenerateDroplet p (create_name cr) (ForProvider (Spec cr))) =
             (Some droplet, response, None)"
  shows "Create c p (Droplet_mg cr) =
           Returned \<lparr>result = ExternalCreation_zero\<lparr>ExternalNameAssigned := True\<rparr>,
                     err = None,
                     managed = Droplet_mg
                       (if GetExternalName cr = ''''
                        then SetExternalName (Droplet_SetConditions cr [Creating (metav1_Now p)])
                               (Itoa (godo_ID droplet))
                        else Droplet_SetConditions cr [Creating (metav1_Now p)]),
                     calls = [Call_Droplets_Create
                                (GenerateDroplet p (create_name cr) (ForProvider (Spec cr)))]\<rparr>"
  using assms
  by (simp add: Create_def Let_def create_name_SetConditions Spec_SetConditions
      GetExternalName_SetConditions)

lemma Create_fails:
  assumes "Droplets_Create c (GenerateDroplet p (create_name cr) (ForProvider (Spec cr))) =
             (droplet, response, e)"
    and "e \<noteq> None \<or> droplet = None"
  shows "Create c p (Droplet_mg cr) =
           Returned \<lparr>result = ExternalCreation_zero,
                     err = errors_Wrap e errDropletCreateFailed,
                     managed = Droplet_mg (Droplet_SetConditions cr [Creating (metav1_Now p)]),
                     calls = [Call_Droplets_Create
                                (GenerateDroplet p (create_name cr) (ForProvider (Spec cr)))]\<rparr>"
  using assms
  by (auto simp: Create_def Let_def create_name_SetConditions Spec_SetConditions
      split: option.splits)

text \<open>
  C1. Identity hand-off: when the external name is empty at entry and the provider create
  returns an instance and no error, Create returns without error, reports
  \<^verbatim>\<open>ExternalNameAssigned = true\<close>, and leaves as external name the decimal rendering of
  the instance's ID, which \<^verbatim>\<open>strconv.Atoi\<close> reads back as that ID.
\<close>

theorem Create_identity_handoff:
  assumes "GetExternalName cr = ''''"
    and "Droplets_Create c (GenerateDroplet p (GetName cr) (ForProvider (Spec cr))) =
           (Some droplet, response, None)"
  shows "\<exists>r cr'. Create c p (Droplet_mg cr) = Returned r \<and> err r = None \<and>
           ExternalNameAssigned (result r) \<and> managed r = Droplet_mg cr' \<and>
           GetExternalName cr' = Itoa (godo_ID droplet) \<and>
           Atoi (GetExternalName cr') = Some (godo_ID droplet)"
proof -
  from assms have "create_name cr = GetName cr"
    by (simp add: create_name_def)
  with assms(2) have
    "Droplets_Create c (GenerateDroplet p (create_name cr) (ForProvider (Spec cr))) =
       (Some droplet, response, None)"
    by simp
  from Create_succeeds [OF this] assms(1) show ?thesis
    by (simp add: ExternalCreation_zero_def GetExternalName_SetExternalName Atoi_Itoa)
qed

theorem Create_identity_handoff_witness:
  "GetExternalName example_droplet = '''' \<and>
   Droplets_Create (example_client ''new'')
     (GenerateDroplet example_collaborators (GetName example_droplet)
        (ForProvider (Spec example_droplet))) =
     (Some (example_instance ''new''), ok_response, None) \<and>
   (\<exists>r cr'. Create (example_client ''new'') example_collaborators (Droplet_mg example_droplet) =
        Returned r \<and> err r = None \<and> ExternalNameAssigned (result r) \<and>
      managed r = Droplet_mg cr' \<and> GetExternalName cr' = ''123456'' \<and>
      Atoi (GetExternalName cr') = Some 123456)"
proof -
  have h1: "GetExternalName example_droplet = ''''"
    by (simp add: GetExternalName_def example_droplet_def)
  have h2: "Droplets_Create (example_client ''new'')
     (GenerateDroplet example_collaborators (GetName example_droplet)
        (ForProvider (Spec example_droplet))) =
     (Some (example_instance ''new''), ok_response, None)"
    by (simp add: example_client_def)
  have digits: "Itoa 123456 = ''123456''"
    by (simp add: Itoa_def format_digits.simps digit_char_def char_of_def)
  from Create_identity_handoff [OF h1 h2] h1 h2 digits show ?thesis
    by (simp add: example_instance_def)
qed

text \<open>
  C2. The specification asks for a non-nil error whenever the provider create returns a
  nil instance, also when the provider's error is \<^verbatim>\<open>nil\<close>. The code takes its failure
  branch there, but \<^verbatim>\<open>errors.Wrap\<close> of a \<^verbatim>\<open>nil\<close> error is \<^verbatim>\<open>nil\<close>: when the provider
  create returns neither an instance nor an error, Create returns the zero
  \<^verbatim>\<open>ExternalCreation\<close> and no error.
\<close>

theorem Create_nil_instance_nil_error:
  assumes "Droplets_Create c (GenerateDroplet p (create_name cr) (ForProvider (Spec cr))) =
             (None, response, None)"
  shows "\<exists>r. Create c p (Droplet_mg cr) = Returned r \<and> err r = None \<and>
           \<not> ExternalNameAssigned (result r)"
  using Create_fails [OF assms]
  by (simp add: errors_Wrap_def ExternalCreation_zero_def)

theorem Create_nil_instance_nil_error_witness:
  "Droplets_Create client_create_nil
     (GenerateDroplet example_collaborators (create_name example_droplet)
        (ForProvider (Spec example_droplet))) = (None, ok_response, None) \<and>
   (\<exists>r. Create client_create_nil example_collaborators (Droplet_mg example_droplet) =
      Returned r \<and> err r = None \<and> \<not> ExternalNameAssigned (result r))"
proof -
  have h: "Droplets_Create client_create_nil
     (GenerateDroplet example_collaborators (create_name example_droplet)
        (ForProvider (Spec example_droplet))) = (None, ok_response, None)"
    by (simp add: client_create_nil_def)
  from Create_nil_instance_nil_error [OF h] h show ?thesis
    by simp
qed

text \<open>
  C10. Whenever the provider create returns an instance and no error, Create reports
  \<^verbatim>\<open>ExternalNameAssigned = true\<close>, whatever the external name was at entry; a non-empty
  external name is left as it was, with the annotations unchanged.
\<close>

theorem Create_always_reports_assigned:
  assumes "Droplets_Create c (GenerateDroplet p (create_name cr) (ForProvider (Spec cr))) =
             (Some droplet, response, None)"
  shows "\<exists>r cr'. Create c p (Droplet_mg cr) = Returned r \<and> err r = None \<and>
           ExternalNameAssigned (result r) \<and> managed r = Droplet_mg cr' \<and>
           (GetExternalName cr \<noteq> '''' \<longrightarrow>
              GetExternalName cr' = GetExternalName cr \<and>
              Annotations (Metadata cr') = Annotations (Metadata cr))"
  using Create_succeeds [OF assms]
  by (simp add: ExternalCreation_zero_def GetExternalName_SetConditions Metadata_SetConditions)

theorem Create_always_reports_assigned_witness:
  "Droplets_Create (example_client ''new'')
     (GenerateDroplet example_collaborators (create_name example_named)
        (ForProvider (Spec example_named))) =
     (Some (example_instance ''new''), ok_response, None) \<and>
   GetExternalName example_named = ''web-1'' \<and>
   (\<exists>r cr'. Create (example_client ''new'') example_collaborators (Droplet_mg example_named) =
        Returned r \<and> err r = None \<and> ExternalNameAssigned (result r) \<and>
      managed r = Droplet_mg cr' \<and> GetExternalName cr' = ''web-1'')"
proof -
  have h: "Droplets_Create (example_client ''new'')
     (GenerateDroplet example_collaborators (create_name example_named)
        (ForProvider (Spec example_named))) =
     (Some (example_instance ''new''), ok_response, None)"
    by (simp add: example_client_def)
  have n: "GetExternalName example_named = ''web-1''"
    by (simp add: example_named_def GetExternalName_SetExternalName)
  from Create_always_reports_assigned [OF h] h n show ?thesis
    by auto
qed

subsection \<open>Observe\<close>

lemma Observe_get_error:
  assumes "GetExternalName cr \<noteq> ''''"
    and "Droplets_Get c (externalID_of cr) = (observed, response, Some e)"
  shows "Observe c p (Droplet_mg cr) =
           Returned \<lparr>result = ExternalObservation_zero,
                     err = errors_Wrap (IgnoreNotFound (Some e) response) errGetDroplet,
                     managed = Droplet_mg cr,
                     calls = [Call_Droplets_Get (externalID_of cr)]\<rparr>"
  using assms by (simp add: Observe_def Let_def)

lemma Observe_get_nil:
  assumes "GetExternalName cr \<noteq> ''''"
    and "Droplets_Get c (externalID_of cr) = (None, response, None)"
  shows "Observe c p (Droplet_mg cr) = Panicked"
  using assms by (simp add: Observe_def Let_def)

lemma Observe_persist_refused:
  assumes "GetExternalName cr \<noteq> ''''"
    and "Droplets_Get c (externalID_of cr) = (Some observed, response, None)"
    and "ForProvider (Spec (late_initialized p cr observed)) \<noteq> ForProvider (Spec cr)"
    and "kube_Update c (late_initialized p cr observed) = Some e"
  shows "Observe c p (Droplet_mg cr) =
           Returned \<lparr>result = ExternalObservation_zero,
                     err = Some (Wrapped e errDropletUpdate),
                     managed = Droplet_mg (late_initialized p cr observed),
                     calls = [Call_Droplets_Get (externalID_of cr),
                              Call_kube_Update (late_initialized p cr observed)]\<rparr>"
  using assms by (auto simp: Observe_def Let_def errors_Wrap_def)

lemma Observe_persisted:
  assumes "GetExternalName cr \<noteq> ''''"
    and "Droplets_Get c (externalID_of cr) = (Some observed, response, None)"
    and "ForProvider (Spec (late_initialized p cr observed)) \<noteq> ForProvider (Spec cr)"
    and "kube_Update c (late_initialized p cr observed) = None"
  shows "Observe c p (Droplet_mg cr) =
           Returned \<lparr>result = ExternalObservation_zero
                        \<lparr>ResourceExists := True, ResourceUpToDate := True\<rparr>,
                     err = None,
                     managed = Droplet_mg
                       (record_observation p (late_initialized p cr observed) observed),
                     calls = [Call_Droplets_Get (externalID_of cr),
                              Call_kube_Update (late_initialized p cr observed)]\<rparr>"
  using assms by (auto simp: Observe_def Let_def)

lemma Observe_nothing_to_persist:
  assumes "GetExternalName cr \<noteq> ''''"
    and "Droplets_Get c (externalID_of cr) = (Some observed, response, None)"
    and "ForProvider (Spec (late_initialized p cr observed)) = ForProvider (Spec cr)"
  shows "Observe c p (Droplet_mg cr) =
           Returned \<lparr>result = ExternalObservation_zero
                        \<lparr>ResourceExists := True, ResourceUpToDate := True\<rparr>,
                     err = None,
                     managed = Droplet_mg
                       (record_observation p (late_initialized p cr observed) observed),
                     calls = [Call_Droplets_Get (externalID_of cr)]\<rparr>"
  using assms by (auto simp: Observe_def Let_def)

lemma Observe_exists:
  assumes "Observe c p (Droplet_mg cr) = Returned r" and "ResourceExists (result r)"
  shows "\<exists>observed response.
           GetExternalName cr \<noteq> '''' \<and>
           Droplets_Get c (externalID_of cr) = (Some observed, response, None) \<and>
           err r = None \<and>
           managed r =
             Droplet_mg (record_observation p (late_initialized p cr observed) observed)"
  using assms
  by (auto simp: Observe_def Let_def ExternalObservation_zero_def
      split: if_splits prod.splits option.splits)

lemma record_observation_Conditions:
  "Conditions (Status (record_observation p cr observed)) =
     (if godo_Status observed = StatusNew
      then SetConditions (Conditions (Status cr)) [Creating (metav1_Now p)]
      else if godo_Status observed = StatusActive
      then SetConditions (Conditions (Status cr)) [Available (metav1_Now p)]
      else Conditions (Status cr))"
  by (simp add: record_observation_def Let_def Droplet_SetConditions_def)

lemma record_observation_AtProvider:
  "AtProvider (Status (record_observation p cr observed)) =
     \<lparr>CreationTimestamp = godo_Created observed, ID = godo_ID observed,
      AtProvider_Status = godo_Status observed\<rparr>"
  by (simp add: record_observation_def Let_def Droplet_SetConditions_def)

text \<open>
  C4. With an empty external name Observe returns \<^verbatim>\<open>ResourceExists = false\<close> and no
  error, makes no call (so no provider get), and leaves the record as it was.
\<close>

theorem Observe_empty_identity:
  assumes "GetExternalName cr = ''''"
  shows "\<exists>r. Observe c p (Droplet_mg cr) = Returned r \<and> \<not> ResourceExists (result r) \<and>
           err r = None \<and> calls r = [] \<and> managed r = Droplet_mg cr"
  using assms by (simp add: Observe_def ExternalObservation_zero_def)

theorem Observe_empty_identity_witness:
  "GetExternalName example_droplet = '''' \<and>
   (\<exists>r. Observe (example_client ''active'') example_collaborators (Droplet_mg example_droplet) =
      Returned r \<and> \<not> ResourceExists (result r) \<and> err r = None \<and> calls r = [] \<and>
      managed r = Droplet_mg example_droplet)"
proof -
  have h: "GetExternalName example_droplet = ''''"
    by (simp add: GetExternalName_def example_droplet_def)
  from Observe_empty_identity [OF h] h show ?thesis
    by simp
qed

text \<open>
  C3. A not-found result is an error of the provider call that comes with a not-found
  response. From the provider get, Observe (on a record with a non-empty external name)
  returns \<^verbatim>\<open>ResourceExists = false\<close> and no error; from the provider delete, Delete returns
  no error.
\<close>

theorem not_found_is_no_error:
  "(GetExternalName cr \<noteq> '''' \<and>
    Droplets_Get c (externalID_of cr) = (observed, response, Some e) \<and>
    is_not_found response \<longrightarrow>
      (\<exists>r. Observe c p (Droplet_mg cr) = Returned r \<and> \<not> ResourceExists (result r) \<and>
         err r = None)) \<and>
   (Droplets_Delete c (ID (AtProvider (Status cr))) = (response', e') \<and>
    is_not_found response' \<longrightarrow>
      (\<exists>r. Delete c p (Droplet_mg cr) = Returned r \<and> err r = None))"
proof (intro conjI impI)
  assume a: "GetExternalName cr \<noteq> '''' \<and>
    Droplets_Get c (externalID_of cr) = (observed, response, Some e) \<and> is_not_found response"
  then have "Observe c p (Droplet_mg cr) =
      Returned \<lparr>result = ExternalObservation_zero,
                err = errors_Wrap (IgnoreNotFound (Some e) response) errGetDroplet,
                managed = Droplet_mg cr, calls = [Call_Droplets_Get (externalID_of cr)]\<rparr>"
    using Observe_get_error [of cr c observed response e p] by simp
  with a show "\<exists>r. Observe c p (Droplet_mg cr) = Returned r \<and> \<not> ResourceExists (result r) \<and>
      err r = None"
    by (simp add: IgnoreNotFound_def errors_Wrap_def ExternalObservation_zero_def)
next
  assume "Droplets_Delete c (ID (AtProvider (Status cr))) = (response', e') \<and>
    is_not_found response'"
  then show "\<exists>r. Delete c p (Droplet_mg cr) = Returned r \<and> err r = None"
    by (simp add: Delete_def Let_def Droplet_SetConditions_def IgnoreNotFound_def
        errors_Wrap_def)
qed

theorem not_found_is_no_error_witness:
  "GetExternalName example_named \<noteq> '''' \<and>
   Droplets_Get (example_client ''active'') (externalID_of example_named) =
     (None, not_found_response,
      Some (api_error ''The resource you requested could not be found.'')) \<and>
   is_not_found not_found_response \<and>
   (\<exists>r. Observe (example_client ''active'') example_collaborators (Droplet_mg example_named) =
      Returned r \<and> \<not> ResourceExists (result r) \<and> err r = None) \<and>
   Droplets_Delete (example_client ''active'') (ID (AtProvider (Status example_named))) =
     (not_found_response, Some (api_error ''The resource you requested could not be found.'')) \<and>
   (\<exists>r. Delete (example_client ''active'') example_collaborators (Droplet_mg example_named) =
      Returned r \<and> err r = None)"
proof -
  have n: "GetExternalName example_named = ''web-1''"
    by (simp add: example_named_def GetExternalName_SetExternalName)
  have i: "externalID_of example_named = 0"
    by (simp add: externalID_of_def n Atoi_def is_digit_def)
  have g: "Droplets_Get (example_client ''active'') (externalID_of example_named) =
     (None, not_found_response,
      Some (api_error ''The resource you requested could not be found.''))"
    by (simp add: i example_client_def)
  have f: "is_not_found not_found_response"
    by (simp add: is_not_found_def not_found_response_def)
  have d: "Droplets_Delete (example_client ''active'')
      (ID (AtProvider (Status example_named))) =
     (not_found_response, Some (api_error ''The resource you requested could not be found.''))"
    by (simp add: example_named_def SetExternalName_def example_droplet_def example_client_def)
  from not_found_is_no_error
    [of example_named "example_client ''active''" None not_found_response
       "api_error ''The resource you requested could not be found.''" example_collaborators
       not_found_response "Some (api_error ''The resource you requested could not be found.'')"]
    n g f d
  show ?thesis by simp
qed

text \<open>
  C5. An Observe that reports an existing instance stored the status the provider get
  returned; for \<^verbatim>\<open>new\<close> the record's Ready condition is then Creating, for \<^verbatim>\<open>active\<close> it
  is Available (both up to the transition time, as \<^verbatim>\<open>Condition.Equal\<close> compares), and for
  every other status the list of conditions is the one the record had. So a Ready
  condition that was Available is still Available after an observation of any status but
  \<^verbatim>\<open>new\<close>.
\<close>

theorem Observe_status_to_condition:
  assumes "Observe c p (Droplet_mg cr) = Returned r" and "ResourceExists (result r)"
  shows "\<exists>cr' observed response.
           Droplets_Get c (externalID_of cr) = (Some observed, response, None) \<and>
           err r = None \<and> managed r = Droplet_mg cr' \<and>
           AtProvider_Status (AtProvider (Status cr')) = godo_Status observed \<and>
           (godo_Status observed = StatusNew \<longrightarrow>
              Condition_Equal (GetCondition (Conditions (Status cr')) TypeReady)
                (Creating (metav1_Now p))) \<and>
           (godo_Status observed = StatusActive \<longrightarrow>
              Condition_Equal (GetCondition (Conditions (Status cr')) TypeReady)
                (Available (metav1_Now p))) \<and>
           (godo_Status observed \<noteq> StatusNew \<and> godo_Status observed \<noteq> StatusActive \<longrightarrow>
              Conditions (Status cr') = Conditions (Status cr) \<and>
              GetCondition (Conditions (Status cr')) TypeReady =
                GetCondition (Conditions (Status cr)) TypeReady) \<and>
           (godo_Status observed \<noteq> StatusNew \<longrightarrow>
              (\<forall>t. Condition_Equal (GetCondition (Conditions (Status cr)) TypeReady)
                     (Available t) \<longrightarrow>
                   Condition_Equal (GetCondition (Conditions (Status cr')) TypeReady)
                     (Available t)))"
proof -
  from Observe_exists [OF assms] obtain observed response where
    get: "Droplets_Get c (externalID_of cr) = (Some observed, response, None)" and
    ok: "err r = None" and
    mg: "managed r =
           Droplet_mg (record_observation p (late_initialized p cr observed) observed)"
    by blast
  let ?cr' = "record_observation p (late_initialized p cr observed) observed"
  have conds: "Conditions (Status ?cr') =
     (if godo_Status observed = StatusNew
      then SetConditions (Conditions (Status cr)) [Creating (metav1_Now p)]
      else if godo_Status observed = StatusActive
      then SetConditions (Conditions (Status cr)) [Available (metav1_Now p)]
      else Conditions (Status cr))"
    by (simp add: record_observation_Conditions Status_late_initialized)
  have st: "AtProvider_Status (AtProvider (Status ?cr')) = godo_Status observed"
    by (simp add: record_observation_AtProvider)
  have new: "Condition_Equal
      (GetCondition (SetConditions (Conditions (Status cr)) [Creating (metav1_Now p)]) TypeReady)
      (Creating (metav1_Now p))"
    using GetCondition_SetConditions [of "Conditions (Status cr)" "Creating (metav1_Now p)"]
    by (simp add: Creating_def)
  have active: "Condition_Equal
      (GetCondition (SetConditions (Conditions (Status cr)) [Available (metav1_Now p)]) TypeReady)
      (Available (metav1_Now p))"
    using GetCondition_SetConditions [of "Conditions (Status cr)" "Available (metav1_Now p)"]
    by (simp add: Available_def)
  have any_time: "\<And>x t. Condition_Equal x (Available (metav1_Now p)) \<Longrightarrow>
      Condition_Equal x (Available t)"
    by (simp add: Condition_Equal_def Available_def)
  have differ: "StatusNew \<noteq> StatusActive"
    by (simp add: StatusNew_def StatusActive_def)
  have mapping: "(godo_Status observed = StatusNew \<longrightarrow>
           Condition_Equal (GetCondition (Conditions (Status ?cr')) TypeReady)
             (Creating (metav1_Now p))) \<and>
        (godo_Status observed = StatusActive \<longrightarrow>
           Condition_Equal (GetCondition (Conditions (Status ?cr')) TypeReady)
             (Available (metav1_Now p))) \<and>
        (godo_Status observed \<noteq> StatusNew \<and> godo_Status observed \<noteq> StatusActive \<longrightarrow>
           Conditions (Status ?cr') = Conditions (Status cr) \<and>
           GetCondition (Conditions (Status ?cr')) TypeReady =
             GetCondition (Conditions (Status cr)) TypeReady)"
    using new active differ by (simp add: conds)
  have kept: "godo_Status observed \<noteq> StatusNew \<longrightarrow>
      (\<forall>t. Condition_Equal (GetCondition (Conditions (Status cr)) TypeReady) (Available t) \<longrightarrow>
           Condition_Equal (GetCondition (Conditions (Status ?cr')) TypeReady) (Available t))"
  proof (cases "godo_Status observed = StatusActive")
    case True
    with mapping have "Condition_Equal (GetCondition (Conditions (Status ?cr')) TypeReady)
        (Available (metav1_Now p))"
      by simp
    then show ?thesis
      using any_time by blast
  next
    case False
    with mapping show ?thesis
      by simp
  qed
  from get ok mg st mapping kept show ?thesis
    by blast
qed

text \<open>
  C5. Stated for every status but \<^verbatim>\<open>active\<close>, the closing clause does not hold: on a
  record whose Ready condition is Available, an observation of the status \<^verbatim>\<open>new\<close>
  leaves Creating as the only condition.
\<close>

theorem Observe_new_replaces_Available:
  "GetCondition (Conditions (Status example_created)) TypeReady = Available 5 \<and>
   ''new'' \<noteq> StatusActive \<and>
   Observe (example_client ''new'') example_collaborators (Droplet_mg example_created) =
     Returned \<lparr>result = ExternalObservation_zero
                  \<lparr>ResourceExists := True, ResourceUpToDate := True\<rparr>,
               err = None,
               managed = Droplet_mg
                 (example_created
                    \<lparr>Status := \<lparr>Conditions = [Creating 7],
                                AtProvider = \<lparr>CreationTimestamp = ''2021-03-01T10:00:00Z'',
                                              ID = 123456, AtProvider_Status = ''new''\<rparr>\<rparr>\<rparr>),
               calls = [Call_Droplets_Get 123456]\<rparr> \<and>
   \<not> Condition_Equal (Creating 7) (Available 5)"
proof -
  have before: "GetCondition (Conditions (Status example_created)) TypeReady = Available 5"
    by (simp add: example_created_def Available_def TypeReady_def)
  have n: "GetExternalName example_created \<noteq> ''''"
    by (simp add: example_created_def GetExternalName_def SetExternalName_def)
  have i: "externalID_of example_created = 123456"
    by (simp add: externalID_of_def example_created_def GetExternalName_def SetExternalName_def
        example_droplet_def Atoi_def is_digit_def digit_val_def)
  have g: "Droplets_Get (example_client ''new'') (externalID_of example_created) =
      (Some (example_instance ''new''), ok_response, None)"
    by (simp add: i example_client_def)
  have same: "late_initialized example_collaborators example_created (example_instance ''new'') =
      example_created"
    by (simp add: late_initialized_def example_collaborators_def example_created_def)
  have after: "record_observation example_collaborators example_created
      (example_instance ''new'') =
      example_created
        \<lparr>Status := \<lparr>Conditions = [Creating 7],
                    AtProvider = \<lparr>CreationTimestamp = ''2021-03-01T10:00:00Z'',
                                  ID = 123456, AtProvider_Status = ''new''\<rparr>\<rparr>\<rparr>"
    by (simp add: record_observation_def Let_def Droplet_SetConditions_def SetConditions_def
        Condition_Equal_def Creating_def Available_def TypeReady_def StatusNew_def
        example_instance_def example_collaborators_def example_created_def)
  have run: "Observe (example_client ''new'') example_collaborators
      (Droplet_mg example_created) =
     Returned \<lparr>result = ExternalObservation_zero
                  \<lparr>ResourceExists := True, ResourceUpToDate := True\<rparr>,
               err = None,
               managed = Droplet_mg
                 (record_observation example_collaborators
                    (late_initialized example_collaborators example_created
                       (example_instance ''new''))
                    (example_instance ''new'')),
               calls = [Call_Droplets_Get (externalID_of example_created)]\<rparr>"
    by (rule Observe_nothing_to_persist [OF n g]) (simp add: same)
  have differ: "\<not> Condition_Equal (Creating 7) (Available 5)"
    by (simp add: Condition_Equal_def Creating_def Available_def)
  from before run differ show ?thesis
    by (simp add: same after i StatusActive_def)
qed

lemma externalID_of_example_created: "externalID_of example_created = 123456"
  by (simp add: externalID_of_def example_created_def GetExternalName_def SetExternalName_def
      example_droplet_def Atoi_def is_digit_def digit_val_def)

lemma Observe_example_created:
  "Observe (example_client st) example_collaborators (Droplet_mg example_created) =
     Returned \<lparr>result = ExternalObservation_zero
                  \<lparr>ResourceExists := True, ResourceUpToDate := True\<rparr>,
               err = None,
               managed = Droplet_mg
                 (record_observation example_collaborators
                    (late_initialized example_collaborators example_created (example_instance st))
                    (example_instance st)),
               calls = [Call_Droplets_Get 123456]\<rparr>"
proof -
  have n: "GetExternalName example_created \<noteq> ''''"
    by (simp add: example_created_def GetExternalName_def SetExternalName_def)
  have g: "Droplets_Get (example_client st) (externalID_of example_created) =
      (Some (example_instance st), ok_response, None)"
    by (simp add: externalID_of_example_created example_client_def)
  have same: "ForProvider (Spec (late_initialized example_collaborators example_created
      (example_instance st))) = ForProvider (Spec example_created)"
    by (simp add: late_initialized_def example_collaborators_def example_created_def)
  from Observe_nothing_to_persist [OF n g same] show ?thesis
    by (simp add: externalID_of_example_created)
qed

theorem Observe_status_to_condition_witness:
  "(\<exists>r cr'. Observe (example_client ''off'') example_collaborators (Droplet_mg example_created) =
        Returned r \<and> ResourceExists (result r) \<and> managed r = Droplet_mg cr' \<and>
      AtProvider_Status (AtProvider (Status cr')) = ''off'' \<and>
      Conditions (Status cr') = [Available 5]) \<and>
   (\<exists>r cr'. Observe (example_client ''new'') example_collaborators (Droplet_mg example_created) =
        Returned r \<and> ResourceExists (result r) \<and> managed r = Droplet_mg cr' \<and>
      Condition_Equal (GetCondition (Conditions (Status cr')) TypeReady) (Creating 7)) \<and>
   (\<exists>r cr'. Observe (example_client ''active'') example_collaborators
        (Droplet_mg example_created) =
        Returned r \<and> ResourceExists (result r) \<and> managed r = Droplet_mg cr' \<and>
      Condition_Equal (GetCondition (Conditions (Status cr')) TypeReady) (Available 7))"
proof -
  have now: "metav1_Now example_collaborators = 7"
    by (simp add: example_collaborators_def)
  have before: "Conditions (Status example_created) = [Available 5]"
    by (simp add: example_created_def)
  have get: "\<And>st. Droplets_Get (example_client st) (externalID_of example_created) =
      (Some (example_instance st), ok_response, None)"
    by (simp add: externalID_of_example_created example_client_def)
  have status: "\<And>st. godo_Status (example_instance st) = st"
    by (simp add: example_instance_def)
  have run: "\<And>st. \<exists>r. Observe (example_client st) example_collaborators
      (Droplet_mg example_created) = Returned r \<and> ResourceExists (result r)"
    by (simp add: Observe_example_created ExternalObservation_zero_def)
  have off: "\<exists>r cr'. Observe (example_client ''off'') example_collaborators
        (Droplet_mg example_created) =
        Returned r \<and> ResourceExists (result r) \<and> managed r = Droplet_mg cr' \<and>
      AtProvider_Status (AtProvider (Status cr')) = ''off'' \<and>
      Conditions (Status cr') = [Available 5]"
  proof -
    from run [of "''off''"] obtain r where
      ret: "Observe (example_client ''off'') example_collaborators (Droplet_mg example_created) =
        Returned r" and ex: "ResourceExists (result r)"
      by blast
    from Observe_status_to_condition [OF ret ex] get [of "''off''"] status [of "''off''"]
      before ret ex
    show ?thesis
      by (auto simp: StatusNew_def StatusActive_def)
  qed
  have new: "\<exists>r cr'. Observe (example_client ''new'') example_collaborators
        (Droplet_mg example_created) =
        Returned r \<and> ResourceExists (result r) \<and> managed r = Droplet_mg cr' \<and>
      Condition_Equal (GetCondition (Conditions (Status cr')) TypeReady) (Creating 7)"
  proof -
    from run [of "''new''"] obtain r where
      ret: "Observe (example_client ''new'') example_collaborators (Droplet_mg example_created) =
        Returned r" and ex: "ResourceExists (result r)"
      by blast
    from Observe_status_to_condition [OF ret ex] get [of "''new''"] status [of "''new''"]
      now ret ex
    show ?thesis
      by (auto simp: StatusNew_def StatusActive_def)
  qed
  have active: "\<exists>r cr'. Observe (example_client ''active'') example_collaborators
        (Droplet_mg example_created) =
        Returned r \<and> ResourceExists (result r) \<and> managed r = Droplet_mg cr' \<and>
      Condition_Equal (GetCondition (Conditions (Status cr')) TypeReady) (Available 7)"
  proof -
    from run [of "''active''"] obtain r where
      ret: "Observe (example_client ''active'') example_collaborators
        (Droplet_mg example_created) = Returned r" and ex: "ResourceExists (result r)"
      by blast
    from Observe_status_to_condition [OF ret ex] get [of "''active''"] status [of "''active''"]
      now ret ex
    show ?thesis
      by (auto simp: StatusNew_def StatusActive_def)
  qed
  from off new active show ?thesis by blast
qed

text \<open>
  C7. After a provider get that returned an instance and no error: when
  \<^verbatim>\<open>LateInitializeSpec\<close> changed the parameters, the second call of Observe is
  \<^verbatim>\<open>kube.Update\<close> on the record with the merged parameters and with the status it had at
  entry (the observation and the conditions are written only afterwards); if that update
  fails, Observe returns the error wrapped with \<^verbatim>\<open>errDropletUpdate\<close> and the zero
  observation. When the parameters are unchanged, the provider get is the only call.
\<close>

theorem late_initialization_persisted:
  assumes "GetExternalName cr \<noteq> ''''"
    and "Droplets_Get c (externalID_of cr) = (Some observed, response, None)"
  shows "(ForProvider (Spec (late_initialized p cr observed)) \<noteq> ForProvider (Spec cr) \<longrightarrow>
            (\<exists>r. Observe c p (Droplet_mg cr) = Returned r \<and>
               calls r = [Call_Droplets_Get (externalID_of cr),
                          Call_kube_Update (late_initialized p cr observed)] \<and>
               Status (late_initialized p cr observed) = Status cr \<and>
               (\<forall>e. kube_Update c (late_initialized p cr observed) = Some e \<longrightarrow>
                    err r = Some (Wrapped e errDropletUpdate) \<and>
                    result r = ExternalObservation_zero) \<and>
               (kube_Update c (late_initialized p cr observed) = None \<longrightarrow>
                    err r = None \<and> ResourceExists (result r)))) \<and>
         (ForProvider (Spec (late_initialized p cr observed)) = ForProvider (Spec cr) \<longrightarrow>
            (\<exists>r. Observe c p (Droplet_mg cr) = Returned r \<and>
               calls r = [Call_Droplets_Get (externalID_of cr)] \<and>
               err r = None \<and> ResourceExists (result r)))"
proof (intro conjI impI)
  assume changed: "ForProvider (Spec (late_initialized p cr observed)) \<noteq> ForProvider (Spec cr)"
  show "\<exists>r. Observe c p (Droplet_mg cr) = Returned r \<and>
          calls r = [Call_Droplets_Get (externalID_of cr),
                     Call_kube_Update (late_initialized p cr observed)] \<and>
          Status (late_initialized p cr observed) = Status cr \<and>
          (\<forall>e. kube_Update c (late_initialized p cr observed) = Some e \<longrightarrow>
               err r = Some (Wrapped e errDropletUpdate) \<and>
               result r = ExternalObservation_zero) \<and>
          (kube_Update c (late_initialized p cr observed) = None \<longrightarrow>
               err r = None \<and> ResourceExists (result r))"
  proof (cases "kube_Update c (late_initialized p cr observed)")
    case None
    from Observe_persisted [OF assms changed None] None show ?thesis
      by (simp add: Status_late_initialized ExternalObservation_zero_def)
  next
    case (Some e)
    from Observe_persist_refused [OF assms changed Some] Some show ?thesis
      by (simp add: Status_late_initialized)
  qed
next
  assume "ForProvider (Spec (late_initialized p cr observed)) = ForProvider (Spec cr)"
  from Observe_nothing_to_persist [OF assms this]
  show "\<exists>r. Observe c p (Droplet_mg cr) = Returned r \<and>
          calls r = [Call_Droplets_Get (externalID_of cr)] \<and>
          err r = None \<and> ResourceExists (result r)"
    by (simp add: ExternalObservation_zero_def)
qed

lemma externalID_of_example_handed_off: "externalID_of example_handed_off = 123456"
  by (simp add: externalID_of_def example_handed_off_def GetExternalName_SetExternalName
      Atoi_def is_digit_def digit_val_def)

lemma late_initialized_example_handed_off:
  "ForProvider (Spec (late_initialized example_collaborators example_handed_off observed)) =
     example_parameters\<lparr>Backups := Some False\<rparr>"
  by (simp add: late_initialized_def example_collaborators_def example_handed_off_def
      SetExternalName_def example_droplet_def example_parameters_def)

theorem late_initialization_persisted_witness:
  "(\<exists>r. Observe (example_client ''active'') example_collaborators
        (Droplet_mg example_handed_off) = Returned r \<and>
      calls r = [Call_Droplets_Get 123456,
                 Call_kube_Update (late_initialized example_collaborators example_handed_off
                                     (example_instance ''active''))] \<and>
      err r = None \<and> ResourceExists (result r)) \<and>
   (\<exists>r. Observe client_update_refused example_collaborators
        (Droplet_mg example_handed_off) = Returned r \<and>
      calls r = [Call_Droplets_Get 123456,
                 Call_kube_Update (late_initialized example_collaborators example_handed_off
                                     (example_instance ''active''))] \<and>
      err r = Some (Wrapped (api_error ''the object has been modified'') errDropletUpdate) \<and>
      result r = ExternalObservation_zero) \<and>
   (\<exists>r. Observe (example_client ''active'') example_collaborators
        (Droplet_mg example_created) = Returned r \<and>
      calls r = [Call_Droplets_Get 123456] \<and> err r = None \<and> ResourceExists (result r))"
proof -
  have n1: "GetExternalName example_handed_off \<noteq> ''''"
    by (simp add: example_handed_off_def GetExternalName_SetExternalName)
  have n2: "GetExternalName example_created \<noteq> ''''"
    by (simp add: example_created_def GetExternalName_def SetExternalName_def)
  have g1: "Droplets_Get (example_client ''active'') (externalID_of example_handed_off) =
      (Some (example_instance ''active''), ok_response, None)"
    by (simp add: externalID_of_example_handed_off example_client_def)
  have g2: "Droplets_Get client_update_refused (externalID_of example_handed_off) =
      (Some (example_instance ''active''), ok_response, None)"
    by (simp add: client_update_refused_def)
  have g3: "Droplets_Get (example_client ''active'') (externalID_of example_created) =
      (Some (example_instance ''active''), ok_response, None)"
    by (simp add: externalID_of_example_created example_client_def)
  have changed: "ForProvider (Spec (late_initialized example_collaborators example_handed_off
      (example_instance ''active''))) \<noteq> ForProvider (Spec example_handed_off)"
    by (simp add: late_initialized_example_handed_off)
      (simp add: example_handed_off_def SetExternalName_def example_droplet_def
        example_parameters_def)
  have same: "ForProvider (Spec (late_initialized example_collaborators example_created
      (example_instance ''active''))) = ForProvider (Spec example_created)"
    by (simp add: late_initialized_def example_collaborators_def example_created_def)
  have accepted: "kube_Update (example_client ''active'')
      (late_initialized example_collaborators example_handed_off (example_instance ''active'')) =
      None"
    by (simp add: example_client_def)
  have refused: "kube_Update client_update_refused
      (late_initialized example_collaborators example_handed_off (example_instance ''active'')) =
      Some (api_error ''the object has been modified'')"
    by (simp add: client_update_refused_def)
  from late_initialization_persisted [OF n1 g1, of example_collaborators] changed accepted
  have a: "\<exists>r. Observe (example_client ''active'') example_collaborators
        (Droplet_mg example_handed_off) = Returned r \<and>
      calls r = [Call_Droplets_Get 123456,
                 Call_kube_Update (late_initialized example_collaborators example_handed_off
                                     (example_instance ''active''))] \<and>
      err r = None \<and> ResourceExists (result r)"
    by (auto simp: externalID_of_example_handed_off)
  from late_initialization_persisted [OF n1 g2, of example_collaborators] changed refused
  have b: "\<exists>r. Observe client_update_refused example_collaborators
        (Droplet_mg example_handed_off) = Returned r \<and>
      calls r = [Call_Droplets_Get 123456,
                 Call_kube_Update (late_initialized example_collaborators example_handed_off
                                     (example_instance ''active''))] \<and>
      err r = Some (Wrapped (api_error ''the object has been modified'') errDropletUpdate) \<and>
      result r = ExternalObservation_zero"
    by (auto simp: externalID_of_example_handed_off)
  from late_initialization_persisted [OF n2 g3, of example_collaborators] same
  have c: "\<exists>r. Observe (example_client ''active'') example_collaborators
        (Droplet_mg example_created) = Returned r \<and>
      calls r = [Call_Droplets_Get 123456] \<and> err r = None \<and> ResourceExists (result r)"
    by (auto simp: externalID_of_example_created)
  from a b c show ?thesis by blast
qed



subsection \<open>Update\<close>

text \<open>
  C9. For a managed resource of any kind, Update returns the empty \<^verbatim>\<open>ExternalUpdate\<close> and
  no error, makes no call, and returns the resource as it was given (its conditions
  included).
\<close>

theorem Update_is_no_op:
  "Update c p mg =
     Returned \<lparr>result = ExternalUpdate_zero, err = None, managed = mg, calls = []\<rparr>"
  by (simp add: Update_def)

theorem Update_is_no_op_witness:
  "Update (example_client ''active'') example_collaborators (Droplet_mg example_created) =
     Returned \<lparr>result = \<lparr>update_ConnectionDetails = Map.empty\<rparr>, err = None,
               managed = Droplet_mg example_created, calls = []\<rparr> \<and>
   Update (example_client ''active'') example_collaborators (Other_mg ''Database'') =
     Returned \<lparr>result = \<lparr>update_ConnectionDetails = Map.empty\<rparr>, err = None,
               managed = Other_mg ''Database'', calls = []\<rparr>"
  using Update_is_no_op [of "example_client ''active''" example_collaborators
      "Droplet_mg example_created"]
    Update_is_no_op [of "example_client ''active''" example_collaborators
      "Other_mg ''Database''"]
  by (simp add: ExternalUpdate_zero_def)

subsection \<open>The external name across the four operations\<close>

lemma same_Metadata:
  "Metadata cr' = Metadata cr \<Longrightarrow>
     Annotations (Metadata cr') = Annotations (Metadata cr) \<and>
     GetExternalName cr' = GetExternalName cr"
  by (simp add: GetExternalName_def)

lemma Observe_Metadata:
  "Observe c p (Droplet_mg cr) = Returned r \<Longrightarrow>
     \<exists>cr'. managed r = Droplet_mg cr' \<and> Metadata cr' = Metadata cr"
  by (auto simp: Observe_def Let_def Metadata_late_initialized Metadata_record_observation
      split: if_splits prod.splits option.splits)

lemma Delete_Metadata:
  "Delete c p (Droplet_mg cr) = Returned r \<Longrightarrow>
     \<exists>cr'. managed r = Droplet_mg cr' \<and> Metadata cr' = Metadata cr"
  by (auto simp: Delete_def Let_def Metadata_SetConditions split: prod.splits)

lemma Update_Metadata:
  "Update c p (Droplet_mg cr) = Returned r \<Longrightarrow>
     \<exists>cr'. managed r = Droplet_mg cr' \<and> Metadata cr' = Metadata cr"
  by (auto simp: Update_def)

lemma Create_cases:
  "Create c p (Droplet_mg cr) = Returned r \<Longrightarrow>
     managed r = Droplet_mg (Droplet_SetConditions cr [Creating (metav1_Now p)]) \<or>
     (GetExternalName cr = '''' \<and>
      (\<exists>i. managed r =
         Droplet_mg (SetExternalName (Droplet_SetConditions cr [Creating (metav1_Now p)])
                       (Itoa i))))"
proof -
  assume ret: "Create c p (Droplet_mg cr) = Returned r"
  obtain droplet response e where
    call: "Droplets_Create c (GenerateDroplet p (create_name cr) (ForProvider (Spec cr))) =
      (droplet, response, e)"
    by (cases "Droplets_Create c (GenerateDroplet p (create_name cr) (ForProvider (Spec cr)))")
  show ?thesis
  proof (cases "e \<noteq> None \<or> droplet = None")
    case True
    from Create_fails [OF call True] ret show ?thesis by simp
  next
    case False
    then obtain d where "droplet = Some d" and "e = None" by auto
    with call have "Droplets_Create c
        (GenerateDroplet p (create_name cr) (ForProvider (Spec cr))) = (Some d, response, None)"
      by simp
    from Create_succeeds [OF this] ret show ?thesis by auto
  qed
qed

lemma Create_Metadata:
  assumes "Create c p (Droplet_mg cr) = Returned r"
  shows "\<exists>cr'. managed r = Droplet_mg cr' \<and>
       (GetExternalName cr \<noteq> '''' \<longrightarrow> Metadata cr' = Metadata cr) \<and>
       (GetExternalName cr = '''' \<longrightarrow>
          GetExternalName cr' = '''' \<or> Atoi (GetExternalName cr') \<noteq> None)"
  using Create_cases [OF assms]
proof
  assume "managed r = Droplet_mg (Droplet_SetConditions cr [Creating (metav1_Now p)])"
  then show ?thesis
    by (simp add: Metadata_SetConditions GetExternalName_SetConditions)
next
  assume "GetExternalName cr = '''' \<and>
      (\<exists>i. managed r =
         Droplet_mg (SetExternalName (Droplet_SetConditions cr [Creating (metav1_Now p)])
                       (Itoa i)))"
  then show ?thesis
    by (auto simp: GetExternalName_SetExternalName Atoi_Itoa)
qed

lemma Observe_identity:
  assumes "Observe c p (Droplet_mg cr) = Returned r"
  shows "\<exists>cr'. managed r = Droplet_mg cr' \<and>
           Annotations (Metadata cr') = Annotations (Metadata cr) \<and>
           GetExternalName cr' = GetExternalName cr"
proof -
  from Observe_Metadata [OF assms] obtain cr' where
    m: "managed r = Droplet_mg cr'" and e: "Metadata cr' = Metadata cr"
    by blast
  from same_Metadata [OF e] m show ?thesis by blast
qed

lemma Update_identity:
  assumes "Update c p (Droplet_mg cr) = Returned r"
  shows "\<exists>cr'. managed r = Droplet_mg cr' \<and>
           Annotations (Metadata cr') = Annotations (Metadata cr) \<and>
           GetExternalName cr' = GetExternalName cr"
proof -
  from Update_Metadata [OF assms] obtain cr' where
    m: "managed r = Droplet_mg cr'" and e: "Metadata cr' = Metadata cr"
    by blast
  from same_Metadata [OF e] m show ?thesis by blast
qed

lemma Delete_identity:
  assumes "Delete c p (Droplet_mg cr) = Returned r"
  shows "\<exists>cr'. managed r = Droplet_mg cr' \<and>
           Annotations (Metadata cr') = Annotations (Metadata cr) \<and>
           GetExternalName cr' = GetExternalName cr"
proof -
  from Delete_Metadata [OF assms] obtain cr' where
    m: "managed r = Droplet_mg cr'" and e: "Metadata cr' = Metadata cr"
    by blast
  from same_Metadata [OF e] m show ?thesis by blast
qed

lemma Create_identity:
  assumes "Create c p (Droplet_mg cr) = Returned r" and "GetExternalName cr \<noteq> ''''"
  shows "\<exists>cr'. managed r = Droplet_mg cr' \<and>
           Annotations (Metadata cr') = Annotations (Metadata cr) \<and>
           GetExternalName cr' = GetExternalName cr"
proof -
  from Create_Metadata [OF assms(1)] assms(2) obtain cr' where
    m: "managed r = Droplet_mg cr'" and e: "Metadata cr' = Metadata cr"
    by blast
  from same_Metadata [OF e] m show ?thesis by blast
qed

lemma Delete_returns: "\<exists>r. Delete c p mg = Returned r"
  by (cases mg) (simp_all add: Delete_def Let_def split: prod.splits)

text \<open>
  C6. Once the external name parses as an ID, each of Observe, Create, Update and Delete
  returns the record with the same external name, which therefore still parses. On any
  record, Observe, Update and Delete return the annotations as they were; Create does so
  whenever the external name is non-empty, and from an empty external name it leaves an
  empty one or one that parses.
\<close>

theorem identity_monotonic:
  "(Atoi (GetExternalName cr) \<noteq> None \<longrightarrow>
      (\<forall>r. Observe c p (Droplet_mg cr) = Returned r \<longrightarrow>
         (\<exists>cr'. managed r = Droplet_mg cr' \<and> GetExternalName cr' = GetExternalName cr \<and>
            Atoi (GetExternalName cr') \<noteq> None)) \<and>
      (\<forall>r. Create c p (Droplet_mg cr) = Returned r \<longrightarrow>
         (\<exists>cr'. managed r = Droplet_mg cr' \<and> GetExternalName cr' = GetExternalName cr \<and>
            Atoi (GetExternalName cr') \<noteq> None)) \<and>
      (\<forall>r. Update c p (Droplet_mg cr) = Returned r \<longrightarrow>
         (\<exists>cr'. managed r = Droplet_mg cr' \<and> GetExternalName cr' = GetExternalName cr \<and>
            Atoi (GetExternalName cr') \<noteq> None)) \<and>
      (\<forall>r. Delete c p (Droplet_mg cr) = Returned r \<longrightarrow>
         (\<exists>cr'. managed r = Droplet_mg cr' \<and> GetExternalName cr' = GetExternalName cr \<and>
            Atoi (GetExternalName cr') \<noteq> None))) \<and>
   (\<forall>r. Observe c p (Droplet_mg cr) = Returned r \<longrightarrow>
      (\<exists>cr'. managed r = Droplet_mg cr' \<and>
         Annotations (Metadata cr') = Annotations (Metadata cr))) \<and>
   (\<forall>r. Update c p (Droplet_mg cr) = Returned r \<longrightarrow>
      (\<exists>cr'. managed r = Droplet_mg cr' \<and>
         Annotations (Metadata cr') = Annotations (Metadata cr))) \<and>
   (\<forall>r. Delete c p (Droplet_mg cr) = Returned r \<longrightarrow>
      (\<exists>cr'. managed r = Droplet_mg cr' \<and>
         Annotations (Metadata cr') = Annotations (Metadata cr))) \<and>
   (\<forall>r. Create c p (Droplet_mg cr) = Returned r \<longrightarrow>
      (\<exists>cr'. managed r = Droplet_mg cr' \<and>
         (GetExternalName cr \<noteq> '''' \<longrightarrow>
            Annotations (Metadata cr') = Annotations (Metadata cr)) \<and>
         (GetExternalName cr = '''' \<longrightarrow>
            GetExternalName cr' = '''' \<or> Atoi (GetExternalName cr') \<noteq> None)))"
proof (intro conjI impI allI)
  fix r :: "ExternalObservation ret"
  assume num: "Atoi (GetExternalName cr) \<noteq> None"
    and ret: "Observe c p (Droplet_mg cr) = Returned r"
  from Observe_identity [OF ret] obtain cr' where
    "managed r = Droplet_mg cr'" and "GetExternalName cr' = GetExternalName cr"
    by blast
  with num show "\<exists>cr'. managed r = Droplet_mg cr' \<and>
      GetExternalName cr' = GetExternalName cr \<and> Atoi (GetExternalName cr') \<noteq> None"
    by simp
next
  fix r :: "ExternalCreation ret"
  assume num: "Atoi (GetExternalName cr) \<noteq> None"
    and ret: "Create c p (Droplet_mg cr) = Returned r"
  from num have "GetExternalName cr \<noteq> ''''"
    using Atoi_empty by auto
  from Create_identity [OF ret this] obtain cr' where
    "managed r = Droplet_mg cr'" and "GetExternalName cr' = GetExternalName cr"
    by blast
  with num show "\<exists>cr'. managed r = Droplet_mg cr' \<and>
      GetExternalName cr' = GetExternalName cr \<and> Atoi (GetExternalName cr') \<noteq> None"
    by simp
next
  fix r :: "ExternalUpdate ret"
  assume num: "Atoi (GetExternalName cr) \<noteq> None"
    and ret: "Update c p (Droplet_mg cr) = Returned r"
  from Update_identity [OF ret] obtain cr' where
    "managed r = Droplet_mg cr'" and "GetExternalName cr' = GetExternalName cr"
    by blast
  with num show "\<exists>cr'. managed r = Droplet_mg cr' \<and>
      GetExternalName cr' = GetExternalName cr \<and> Atoi (GetExternalName cr') \<noteq> None"
    by simp
next
  fix r :: "unit ret"
  assume num: "Atoi (GetExternalName cr) \<noteq> None"
    and ret: "Delete c p (Droplet_mg cr) = Returned r"
  from Delete_identity [OF ret] obtain cr' where
    "managed r = Droplet_mg cr'" and "GetExternalName cr' = GetExternalName cr"
    by blast
  with num show "\<exists>cr'. managed r = Droplet_mg cr' \<and>
      GetExternalName cr' = GetExternalName cr \<and> Atoi (GetExternalName cr') \<noteq> None"
    by simp
next
  fix r :: "ExternalObservation ret"
  assume ret: "Observe c p (Droplet_mg cr) = Returned r"
  from Observe_identity [OF ret] show "\<exists>cr'. managed r = Droplet_mg cr' \<and>
      Annotations (Metadata cr') = Annotations (Metadata cr)"
    by blast
next
  fix r :: "ExternalUpdate ret"
  assume ret: "Update c p (Droplet_mg cr) = Returned r"
  from Update_identity [OF ret] show "\<exists>cr'. managed r = Droplet_mg cr' \<and>
      Annotations (Metadata cr') = Annotations (Metadata cr)"
    by blast
next
  fix r :: "unit ret"
  assume ret: "Delete c p (Droplet_mg cr) = Returned r"
  from Delete_identity [OF ret] show "\<exists>cr'. managed r = Droplet_mg cr' \<and>
      Annotations (Metadata cr') = Annotations (Metadata cr)"
    by blast
next
  fix r :: "ExternalCreation ret"
  assume ret: "Create c p (Droplet_mg cr) = Returned r"
  from Create_Metadata [OF ret] obtain cr' where
    m: "managed r = Droplet_mg cr'" and
    keep: "GetExternalName cr \<noteq> '''' \<longrightarrow> Metadata cr' = Metadata cr" and
    fresh: "GetExternalName cr = '''' \<longrightarrow>
              GetExternalName cr' = '''' \<or> Atoi (GetExternalName cr') \<noteq> None"
    by blast
  from keep have "GetExternalName cr \<noteq> '''' \<longrightarrow>
      Annotations (Metadata cr') = Annotations (Metadata cr)"
    by simp
  with m fresh show "\<exists>cr'. managed r = Droplet_mg cr' \<and>
      (GetExternalName cr \<noteq> '''' \<longrightarrow>
         Annotations (Metadata cr') = Annotations (Metadata cr)) \<and>
      (GetExternalName cr = '''' \<longrightarrow>
         GetExternalName cr' = '''' \<or> Atoi (GetExternalName cr') \<noteq> None)"
    by blast
qed

theorem identity_monotonic_witness:
  "Atoi (GetExternalName example_created) = Some 123456 \<and>
   (\<exists>r cr'. Observe (example_client ''active'') example_collaborators
        (Droplet_mg example_created) = Returned r \<and>
      managed r = Droplet_mg cr' \<and> GetExternalName cr' = ''123456'') \<and>
   (\<exists>r cr'. Create (example_client ''active'') example_collaborators
        (Droplet_mg example_created) = Returned r \<and>
      managed r = Droplet_mg cr' \<and> GetExternalName cr' = ''123456'') \<and>
   (\<exists>r cr'. Update (example_client ''active'') example_collaborators
        (Droplet_mg example_created) = Returned r \<and>
      managed r = Droplet_mg cr' \<and> GetExternalName cr' = ''123456'') \<and>
   (\<exists>r cr'. Delete (example_client ''active'') example_collaborators
        (Droplet_mg example_created) = Returned r \<and>
      managed r = Droplet_mg cr' \<and> GetExternalName cr' = ''123456'')"
proof -
  let ?c = "example_client ''active''"
  let ?p = "example_collaborators"
  have n: "GetExternalName example_created = ''123456''"
    by (simp add: example_created_def GetExternalName_def SetExternalName_def)
  have a: "Atoi (GetExternalName example_created) = Some 123456"
    by (simp add: n Atoi_def is_digit_def digit_val_def)
  then have num: "Atoi (GetExternalName example_created) \<noteq> None"
    by simp
  note all = identity_monotonic [of example_created ?c ?p]
  obtain ro where o: "Observe ?c ?p (Droplet_mg example_created) = Returned ro"
    by (simp add: Observe_example_created)
  obtain rc where c: "Create ?c ?p (Droplet_mg example_created) = Returned rc"
    using Create_succeeds [of ?c ?p example_created "example_instance ''active''" ok_response]
    by (simp add: example_client_def)
  obtain ru where u: "Update ?c ?p (Droplet_mg example_created) = Returned ru"
    by (simp add: Update_def)
  obtain rd where d: "Delete ?c ?p (Droplet_mg example_created) = Returned rd"
    using Delete_returns by blast
  from all num o have "\<exists>cr'. managed ro = Droplet_mg cr' \<and>
      GetExternalName cr' = GetExternalName example_created \<and>
      Atoi (GetExternalName cr') \<noteq> None"
    by blast
  with o n have wo: "\<exists>r cr'. Observe ?c ?p (Droplet_mg example_created) = Returned r \<and>
      managed r = Droplet_mg cr' \<and> GetExternalName cr' = ''123456''"
    by auto
  from all num c have "\<exists>cr'. managed rc = Droplet_mg cr' \<and>
      GetExternalName cr' = GetExternalName example_created \<and>
      Atoi (GetExternalName cr') \<noteq> None"
    by blast
  with c n have wc: "\<exists>r cr'. Create ?c ?p (Droplet_mg example_created) = Returned r \<and>
      managed r = Droplet_mg cr' \<and> GetExternalName cr' = ''123456''"
    by auto
  from all num u have "\<exists>cr'. managed ru = Droplet_mg cr' \<and>
      GetExternalName cr' = GetExternalName example_created \<and>
      Atoi (GetExternalName cr') \<noteq> None"
    by blast
  with u n have wu: "\<exists>r cr'. Update ?c ?p (Droplet_mg example_created) = Returned r \<and>
      managed r = Droplet_mg cr' \<and> GetExternalName cr' = ''123456''"
    by auto
  from all num d have "\<exists>cr'. managed rd = Droplet_mg cr' \<and>
      GetExternalName cr' = GetExternalName example_created \<and>
      Atoi (GetExternalName cr') \<noteq> None"
    by blast
  with d n have wd: "\<exists>r cr'. Delete ?c ?p (Droplet_mg example_created) = Returned r \<and>
      managed r = Droplet_mg cr' \<and> GetExternalName cr' = ''123456''"
    by auto
  from a wo wc wu wd show ?thesis
    by (intro conjI)
qed


end
